theory Spec2Isabelle
  imports Main
begin

section \<open>The dispatch pipeline of HttpMethodController\<close>

text \<open>
  The controller of this library maps an HTTP method to a \<open>Condition\<close> and runs, for one
  API Gateway event, authentication, validation, custom validation and finally the bound
  function. Every stage is an injected asynchronous function. The model below makes two
  things of the TypeScript explicit: how a call of an injected function ends (it returns
  a promise that is fulfilled or rejected, or it throws before returning one), and which
  injected functions a dispatch has called, in order (a trace returned with the result).
\<close>

subsection \<open>Promises and calls\<close>

type_synonym reason = string

text \<open>A settled promise: the value it is fulfilled with, or the reason it is rejected with.\<close>

datatype 'a settled = Fulfilled 'a | Rejected reason

text \<open>
  What calling a function of type \<open>(...) => Promise<A>\<close> does: it hands back a promise, or
  it throws synchronously.
\<close>

datatype 'a call = Returns "'a settled" | Throws reason

text \<open>
  \<open>await f(x)\<close> inside an \<open>async\<close> function: a synchronous throw of \<open>f\<close> and a rejection of
  the promise both leave the enclosing function through its exceptional exit.
\<close>

fun await :: "'a call \<Rightarrow> 'a settled" where
  "await (Returns s) = s"
| "await (Throws x) = Rejected x"

subsection \<open>Data\<close>

type_synonym dict = "(string \<times> string) list"

text \<open>\<open>APIGatewayProxyResult\<close>, with the two fields the controller writes.\<close>

record APIGatewayProxyResult =
  statusCode :: int
  body :: string

text \<open>
  \<open>APIGatewayProxyEvent\<close>, with the fields the controller reads. The parameter \<open>'m\<close> is
  the type of method names. \<open>setMethod\<close> takes them at the declared type \<open>HttpMethod\<close>;
  \<open>handler\<close> below takes them as strings, since \<open>httpMethod\<close> is declared \<open>string\<close> and
  \<open>event.httpMethod as HttpMethod\<close> checks nothing when the program runs.
\<close>

record 'm APIGatewayProxyEvent =
  httpMethod :: 'm
  headers :: dict
  pathParameters :: "dict option"
  body_E :: "string option"
  queryStringParameters :: "dict option"

record 'e AuthenticationFunctionResult =
  userInfo :: "'e option"
  error401 :: bool
  error500 :: bool

record CustomValidationFunctionEventParameter =
  headers_V :: dict
  pathParameters_V :: "dict option"
  body_V :: "string option"
  queryParameters_V :: "dict option"

record CustomValidationFunctionResult =
  validationResult :: bool
  errorResponse :: "APIGatewayProxyResult option"

record 'e CallFunctionEventParameter =
  headers_C :: dict
  pathParameters_C :: "dict option"
  body_C :: "string option"
  queryParameters_C :: "dict option"
  userInfo_C :: "'e option"

type_synonym 'e CallFunction =
  "'e CallFunctionEventParameter \<Rightarrow> APIGatewayProxyResult call"

type_synonym CustomValidationFunction =
  "CustomValidationFunctionEventParameter \<Rightarrow> CustomValidationFunctionResult call"

type_synonym ('m, 'e) AuthenticationFunction =
  "'m APIGatewayProxyEvent \<Rightarrow> 'e AuthenticationFunctionResult call"

text \<open>
  \<open>ValidationFunction\<close>, the type of \<open>Validation.check\<close>. The list of validators
  (\<open>IValidation\<close>) is the parameter \<open>'v\<close>. The first argument is \<open>None\<close> when the
  function is called with \<open>undefined\<close> for the list, which \<open>handler\<close> does for a condition
  that is not a \<open>Condition\<close> (see \<open>handlerInherited\<close>).
\<close>

type_synonym 'v ValidationFunction =
  "'v option \<Rightarrow> dict \<Rightarrow> dict option \<Rightarrow> string option \<Rightarrow> dict option \<Rightarrow> bool call"

text \<open>\<open>Condition\<close>: \<open>func\<close> is the name of a member of the controller.\<close>

record 'v Condition =
  isAuthentication :: bool
  validation :: "'v"
  func :: string
  customValidationFunc :: "CustomValidationFunction option"

text \<open>
  A controller object: its private \<open>conditions\<close>, and its members of function type, looked
  up by name in \<open>controller[condition.func]\<close>.
\<close>

record ('m, 'e, 'v) HttpMethodController =
  conditions :: "'m \<rightharpoonup> 'v Condition"
  members :: "string \<rightharpoonup> 'e CallFunction"

text \<open>
  What a dispatch reads from outside the controller: the static \<open>authenticationFunc\<close> of
  the class, and \<open>Validation.check\<close>.
\<close>

record ('m, 'e, 'v) statics =
  authenticationFunc :: "('m, 'e) AuthenticationFunction option"
  Validation_check :: "'v ValidationFunction"

text \<open>The three static responses, with the values the class initialises them to.\<close>

definition badRequestResponse :: APIGatewayProxyResult where
  "badRequestResponse = \<lparr>statusCode = 400, body = ''Bad Request''\<rparr>"

definition unauthorizeErrorResponse :: APIGatewayProxyResult where
  "unauthorizeErrorResponse = \<lparr>statusCode = 401, body = ''Unauthorize''\<rparr>"

definition internalServerErrorResponse :: APIGatewayProxyResult where
  "internalServerErrorResponse = \<lparr>statusCode = 500, body = ''Internal Server Error''\<rparr>"

subsection \<open>The trace of a dispatch\<close>

text \<open>One entry for each call of an injected function, with the arguments of the call.\<close>

datatype ('m, 'e, 'v) invocation =
  AuthenticationInvoked "'m APIGatewayProxyEvent"
| ValidationInvoked "'v option" dict "dict option" "string option" "dict option"
| CustomValidationInvoked CustomValidationFunctionEventParameter
| CallFunctionInvoked string "'e CallFunctionEventParameter"

fun isAuthenticationInvoked :: "('m, 'e, 'v) invocation \<Rightarrow> bool" where
  "isAuthenticationInvoked (AuthenticationInvoked _) = True"
| "isAuthenticationInvoked _ = False"

fun isCallFunctionInvoked :: "('m, 'e, 'v) invocation \<Rightarrow> bool" where
  "isCallFunctionInvoked (CallFunctionInvoked _ _) = True"
| "isCallFunctionInvoked _ = False"

subsection \<open>HttpMethodController.auth\<close>

definition auth ::
  "('m, 'e, 'v) statics \<Rightarrow> 'm APIGatewayProxyEvent \<Rightarrow> 'v Condition \<Rightarrow>
     'e AuthenticationFunctionResult settled \<times> ('m, 'e, 'v) invocation list" where
  "auth st event condition =
     (if isAuthentication condition then
        (case authenticationFunc st of
           None \<Rightarrow> (Fulfilled \<lparr>userInfo = None, error401 = False, error500 = True\<rparr>, [])
         | Some f \<Rightarrow>
             (case f event of
                Throws x \<Rightarrow> (Rejected x, [AuthenticationInvoked event])
              | Returns (Rejected x) \<Rightarrow>
                  (Fulfilled \<lparr>userInfo = None, error401 = False, error500 = True\<rparr>,
                   [AuthenticationInvoked event])
              | Returns (Fulfilled result) \<Rightarrow> (Fulfilled result, [AuthenticationInvoked event])))
      else (Fulfilled \<lparr>userInfo = None, error401 = False, error500 = False\<rparr>, []))"

subsection \<open>HttpMethodController.handler\<close>

text \<open>The call \<open>Validation.check(condition.validation, event.headers, ...)\<close> and its trace entry.\<close>

definition validationCheck ::
  "('m, 'e, 'v) statics \<Rightarrow> 'm APIGatewayProxyEvent \<Rightarrow> 'v Condition \<Rightarrow> bool call" where
  "validationCheck st event condition =
     Validation_check st (Some (validation condition)) (headers event) (pathParameters event)
       (body_E event) (queryStringParameters event)"

definition validationInvoked ::
  "'m APIGatewayProxyEvent \<Rightarrow> 'v Condition \<Rightarrow> ('m, 'e, 'v) invocation" where
  "validationInvoked event condition =
     ValidationInvoked (Some (validation condition)) (headers event) (pathParameters event)
       (body_E event) (queryStringParameters event)"

text \<open>The object literal passed to \<open>condition.customValidationFunc\<close>.\<close>

definition customValidationParameter ::
  "'m APIGatewayProxyEvent \<Rightarrow> CustomValidationFunctionEventParameter" where
  "customValidationParameter event =
     \<lparr>headers_V = headers event,
      pathParameters_V = pathParameters event,
      body_V = body_E event,
      queryParameters_V = queryStringParameters event\<rparr>"

text \<open>The object literal passed to the bound function: the merged event.\<close>

definition callFunctionParameter ::
  "'m APIGatewayProxyEvent \<Rightarrow> 'e AuthenticationFunctionResult \<Rightarrow> 'e CallFunctionEventParameter" where
  "callFunctionParameter event authResult =
     \<lparr>headers_C = headers event,
      pathParameters_C = pathParameters event,
      body_C = body_E event,
      queryParameters_C = queryStringParameters event,
      userInfo_C = userInfo authResult\<rparr>"

text \<open>
  The last statement of \<open>handler\<close>: look the member up, call it with the merged event, and
  attach \<open>.catch\<close> to the promise it returns. A member that is not a function, and a
  function that throws before returning its promise, raise inside \<open>handler\<close>, outside the
  reach of that \<open>.catch\<close>.
\<close>

definition callFunction ::
  "('m, 'e, 'v) HttpMethodController \<Rightarrow> 'm APIGatewayProxyEvent \<Rightarrow> 'v Condition \<Rightarrow>
     'e AuthenticationFunctionResult \<Rightarrow>
     APIGatewayProxyResult settled \<times> ('m, 'e, 'v) invocation list" where
  "callFunction controller event condition authResult =
     (case members controller (func condition) of
        None \<Rightarrow> (Rejected ''TypeError'', [])
      | Some f \<Rightarrow>
          (let invoked = [CallFunctionInvoked (func condition)
                            (callFunctionParameter event authResult)]
           in (case f (callFunctionParameter event authResult) of
                 Throws x \<Rightarrow> (Rejected x, invoked)
               | Returns (Rejected x) \<Rightarrow> (Fulfilled internalServerErrorResponse, invoked)
               | Returns (Fulfilled response) \<Rightarrow> (Fulfilled response, invoked))))"

text \<open>
  \<open>conditions\<close> is a plain object (\<open>{}\<close>), and \<open>controller.conditions[key]\<close> reads it
  through its prototype chain: a key that is no property of the object itself, but names
  a property of \<open>Object.prototype\<close>, yields that inherited value and not \<open>undefined\<close>.
  These are the property names of \<open>Object.prototype\<close> in a standard ECMAScript runtime;
  the record field \<open>conditions\<close> holds the properties of the object itself.
\<close>

definition Object_prototype :: "string list" where
  "Object_prototype =
     [''constructor'', ''__defineGetter__'', ''__defineSetter__'', ''hasOwnProperty'',
      ''__lookupGetter__'', ''__lookupSetter__'', ''isPrototypeOf'', ''propertyIsEnumerable'',
      ''toString'', ''valueOf'', ''__proto__'', ''toLocaleString'']"

text \<open>
  Lines 103 to 143 of \<open>handler\<close> when \<open>condition\<close> is such an inherited value (a built-in
  function, or \<open>Object.prototype\<close> itself for \<open>__proto__\<close>). None of these values has a
  property \<open>isAuthentication\<close>, \<open>validation\<close>, \<open>customValidationFunc\<close> or \<open>func\<close>, so each
  of the four reads gives \<open>undefined\<close>: \<open>auth\<close> takes its last branch and calls nothing,
  \<open>Validation.check\<close> is called with \<open>undefined\<close> for the validators, the custom validation
  is skipped, and the member called is \<open>controller[undefined]\<close>, the member of name
  \<open>undefined\<close>.
\<close>

definition handlerInherited ::
  "(string, 'e, 'v) statics \<Rightarrow> (string, 'e, 'v) HttpMethodController \<Rightarrow>
     string APIGatewayProxyEvent \<Rightarrow>
     APIGatewayProxyResult settled \<times> (string, 'e, 'v) invocation list" where
  "handlerInherited st controller event =
     (let authResult = \<lparr>userInfo = None, error401 = False, error500 = False\<rparr>;
          t2 = [ValidationInvoked None (headers event) (pathParameters event) (body_E event)
                  (queryStringParameters event)]
      in (case await (Validation_check st None (headers event) (pathParameters event)
                        (body_E event) (queryStringParameters event)) of
            Rejected x \<Rightarrow> (Rejected x, t2)
          | Fulfilled checkResult \<Rightarrow>
              (if \<not> checkResult then (Fulfilled badRequestResponse, t2)
               else
                 (case members controller ''undefined'' of
                    None \<Rightarrow> (Rejected ''TypeError'', t2)
                  | Some f \<Rightarrow>
                      (let invoked = [CallFunctionInvoked ''undefined''
                                        (callFunctionParameter event authResult)]
                       in (case f (callFunctionParameter event authResult) of
                             Throws x \<Rightarrow> (Rejected x, t2 @ invoked)
                           | Returns (Rejected x) \<Rightarrow>
                               (Fulfilled internalServerErrorResponse, t2 @ invoked)
                           | Returns (Fulfilled response) \<Rightarrow>
                               (Fulfilled response, t2 @ invoked)))))))"

text \<open>
  The static \<open>handler\<close>; the instance method \<open>handler(event)\<close> is this function at
  \<open>controller = this\<close>. The result is the promise of the \<open>async\<close> function as it settles,
  and the calls made on the way. \<open>condition === undefined\<close> holds when the method is
  neither a property of \<open>conditions\<close> itself nor one it inherits.
\<close>

definition handler ::
  "(string, 'e, 'v) statics \<Rightarrow> (string, 'e, 'v) HttpMethodController \<Rightarrow>
     string APIGatewayProxyEvent \<Rightarrow>
     APIGatewayProxyResult settled \<times> (string, 'e, 'v) invocation list" where
  "handler st controller event =
     (case conditions controller (httpMethod event) of
        None \<Rightarrow>
          (if httpMethod event \<in> set Object_prototype
           then handlerInherited st controller event
           else (Fulfilled badRequestResponse, []))
      | Some condition \<Rightarrow>
          (case auth st event condition of
             (Rejected x, t1) \<Rightarrow> (Rejected x, t1)
           | (Fulfilled authResult, t1) \<Rightarrow>
               (if error401 authResult then (Fulfilled unauthorizeErrorResponse, t1)
                else if error500 authResult then (Fulfilled internalServerErrorResponse, t1)
                else
                  (let t2 = t1 @ [validationInvoked event condition]
                   in (case await (validationCheck st event condition) of
                         Rejected x \<Rightarrow> (Rejected x, t2)
                       | Fulfilled checkResult \<Rightarrow>
                           (if \<not> checkResult then (Fulfilled badRequestResponse, t2)
                            else
                              (case customValidationFunc condition of
                                 None \<Rightarrow>
                                   (case callFunction controller event condition authResult of
                                      (r, t) \<Rightarrow> (r, t2 @ t))
                               | Some cv \<Rightarrow>
                                   (let t3 = t2 @ [CustomValidationInvoked
                                                     (customValidationParameter event)]
                                    in (case await (cv (customValidationParameter event)) of
                                          Rejected x \<Rightarrow> (Rejected x, t3)
                                        | Fulfilled customValidationResult \<Rightarrow>
                                            (case errorResponse customValidationResult of
                                               Some response \<Rightarrow> (Fulfilled response, t3)
                                             | None \<Rightarrow>
                                                 (if \<not> validationResult customValidationResult
                                                  then (Fulfilled badRequestResponse, t3)
                                                  else
                                                    (case callFunction controller event condition
                                                            authResult of
                                                       (r, t) \<Rightarrow> (r, t3 @ t)))))))))))))"

subsection \<open>HttpMethodController.setMethod\<close>

definition setMethod ::
  "('m, 'e, 'v) HttpMethodController \<Rightarrow> 'm \<Rightarrow> 'v Condition \<Rightarrow> ('m, 'e, 'v) HttpMethodController" where
  "setMethod this method condition =
     this\<lparr>conditions := (conditions this)(method \<mapsto> condition)\<rparr>"

subsection \<open>Example inputs\<close>

text \<open>
  The authentication function of \<open>example/Authentication.ts\<close>: it resolves with a fixed
  user and no error.
\<close>

record UserType =
  userId :: string
  role :: string

definition authentication :: "('m, UserType) AuthenticationFunction" where
  "authentication event =
     Returns (Fulfilled \<lparr>userInfo = Some \<lparr>userId = ''6e1dca92-70f5-4531-8dc2-cc20dbca363b'',
                                          role = ''admin''\<rparr>,
                        error401 = False, error500 = False\<rparr>)"

text \<open>Authentication functions that refuse the caller, with one error flag and with both.\<close>

definition refusing :: "('m, UserType) AuthenticationFunction" where
  "refusing event = Returns (Fulfilled \<lparr>userInfo = None, error401 = True, error500 = False\<rparr>)"

definition refusingTwice :: "('m, UserType) AuthenticationFunction" where
  "refusingTwice event = Returns (Fulfilled \<lparr>userInfo = None, error401 = True, error500 = True\<rparr>)"

text \<open>A \<open>Validation.check\<close> that accepts every request (a binding without validators).\<close>

definition accepting :: "unit ValidationFunction" where
  "accepting v h p b q = Returns (Fulfilled True)"

definition staticsWith ::
  "(string, UserType) AuthenticationFunction option \<Rightarrow> (string, UserType, unit) statics" where
  "staticsWith f = \<lparr>authenticationFunc = f, Validation_check = accepting\<rparr>"

text \<open>Custom validation functions: one overrides the response, one fails, one rejects.\<close>

definition teapot :: APIGatewayProxyResult where
  "teapot = \<lparr>statusCode = 418, body = ''teapot''\<rparr>"

definition overriding :: CustomValidationFunction where
  "overriding p = Returns (Fulfilled \<lparr>validationResult = True, errorResponse = Some teapot\<rparr>)"

definition failing :: CustomValidationFunction where
  "failing p = Returns (Fulfilled \<lparr>validationResult = False, errorResponse = None\<rparr>)"

definition rejecting :: CustomValidationFunction where
  "rejecting p = Returns (Rejected ''custom validation broke'')"

text \<open>A bound function that answers 200, and a controller that has it as member \<open>get\<close>.\<close>

definition ok :: APIGatewayProxyResult where
  "ok = \<lparr>statusCode = 200, body = ''ok''\<rparr>"

definition get :: "UserType CallFunction" where
  "get p = Returns (Fulfilled ok)"

definition conditionWith :: "bool \<Rightarrow> CustomValidationFunction option \<Rightarrow> unit Condition" where
  "conditionWith a cv =
     \<lparr>isAuthentication = a, validation = (), func = ''get'', customValidationFunc = cv\<rparr>"

definition unbound :: "(string, UserType, unit) HttpMethodController" where
  "unbound = \<lparr>conditions = Map.empty, members = [''get'' \<mapsto> get]\<rparr>"

definition controllerWith ::
  "bool \<Rightarrow> CustomValidationFunction option \<Rightarrow> (string, UserType, unit) HttpMethodController" where
  "controllerWith a cv = setMethod unbound ''GET'' (conditionWith a cv)"

definition request :: "string APIGatewayProxyEvent" where
  "request = \<lparr>httpMethod = ''GET'', headers = [(''Accept'', ''text/plain'')],
              pathParameters = None, body_E = None, queryStringParameters = None\<rparr>"

text \<open>The same request with a method that names a property of \<open>Object.prototype\<close>.\<close>

definition constructorRequest :: "string APIGatewayProxyEvent" where
  "constructorRequest = request\<lparr>httpMethod := ''constructor''\<rparr>"

section \<open>Properties of the pipeline\<close>

subsection \<open>Unfolding and auxiliary facts\<close>

lemmas example_defs =
  authentication_def refusing_def refusingTwice_def accepting_def staticsWith_def teapot_def
  overriding_def failing_def rejecting_def ok_def get_def conditionWith_def unbound_def
  controllerWith_def request_def constructorRequest_def

lemmas model_defs =
  handler_def handlerInherited_def Object_prototype_def auth_def callFunction_def
  validationCheck_def validationInvoked_def
  customValidationParameter_def callFunctionParameter_def setMethod_def
  badRequestResponse_def unauthorizeErrorResponse_def internalServerErrorResponse_def

text \<open>\<open>auth\<close> calls nothing, or the authentication function once.\<close>

lemma auth_trace:
  "snd (auth st event condition) = [] \<or> snd (auth st event condition) = [AuthenticationInvoked event]"
  by (simp add: auth_def split: option.splits call.splits settled.splits)

text \<open>An outcome with \<open>error401\<close> set can only come from the authentication function.\<close>

lemma auth_error401:
  assumes "auth st event condition = (Fulfilled authResult, t)" and "error401 authResult"
  shows "t = [AuthenticationInvoked event]"
  using assms by (auto simp: auth_def split: if_splits option.splits call.splits settled.splits)

lemma auth_no_CallFunctionInvoked:
  assumes "auth st event condition = (r, t)"
  shows "filter isCallFunctionInvoked t = []"
  using assms auth_trace [of st event condition] by auto

text \<open>A member that is a function is called, once, with the merged event.\<close>

lemma callFunction_member:
  assumes "members controller (func condition) = Some f"
  shows "snd (callFunction controller event condition authResult)
           = [CallFunctionInvoked (func condition) (callFunctionParameter event authResult)]"
  using assms by (simp add: callFunction_def Let_def split: call.splits settled.splits)

lemma callFunction_userInfo:
  assumes "CallFunctionInvoked k p \<in> set (snd (callFunction controller event condition authResult))"
  shows "userInfo_C p = userInfo authResult"
  using assms
  by (auto simp: callFunction_def Let_def callFunctionParameter_def
           split: option.splits call.splits settled.splits)

text \<open>
  Once every gate has let the request through, \<open>handler\<close> is its last statement. There
  are two ways through the custom validation: none is bound, or the bound one accepts.
\<close>

lemma handler_after_gates:
  assumes "conditions controller (httpMethod event) = Some condition"
    and "auth st event condition = (Fulfilled authResult, t1)"
    and "\<not> error401 authResult" and "\<not> error500 authResult"
    and "await (validationCheck st event condition) = Fulfilled True"
    and "customValidationFunc condition = None"
  shows "handler st controller event =
           (fst (callFunction controller event condition authResult),
            t1 @ [validationInvoked event condition]
               @ snd (callFunction controller event condition authResult))"
  using assms by (simp add: handler_def Let_def split: prod.splits)

lemma handler_after_custom:
  assumes "conditions controller (httpMethod event) = Some condition"
    and "auth st event condition = (Fulfilled authResult, t1)"
    and "\<not> error401 authResult" and "\<not> error500 authResult"
    and "await (validationCheck st event condition) = Fulfilled True"
    and "customValidationFunc condition = Some cv"
    and "await (cv (customValidationParameter event)) = Fulfilled r"
    and "errorResponse r = None" and "validationResult r"
  shows "handler st controller event =
           (fst (callFunction controller event condition authResult),
            t1 @ [validationInvoked event condition,
                  CustomValidationInvoked (customValidationParameter event)]
               @ snd (callFunction controller event condition authResult))"
  using assms by (simp add: handler_def Let_def split: prod.splits)

text \<open>The example inputs: the binding is found, the user is authenticated, the check passes.\<close>

lemma example_auth:
  "auth (staticsWith (Some authentication)) request (conditionWith True cv)
     = (Fulfilled \<lparr>userInfo = Some \<lparr>userId = ''6e1dca92-70f5-4531-8dc2-cc20dbca363b'',
                                      role = ''admin''\<rparr>,
                    error401 = False, error500 = False\<rparr>,
        [AuthenticationInvoked request])"
  by (simp add: auth_def conditionWith_def staticsWith_def authentication_def)

lemma example_conditions:
  "conditions (controllerWith a cv) (httpMethod request) = Some (conditionWith a cv)"
  by (simp add: controllerWith_def setMethod_def request_def)

lemma example_validationCheck:
  "await (validationCheck (staticsWith f) request (conditionWith a cv)) = Fulfilled True"
  by (simp add: validationCheck_def staticsWith_def accepting_def)

subsection \<open>A custom validation function that rejects\<close>

text \<open>
  Claim C1 says that a dispatch whose bound \<open>customValidationFunc\<close> rejects returns the
  internal-error response (500, \<open>Internal Server Error\<close>), so that no rejection leaves the
  dispatcher. In \<open>handler\<close> the call is awaited with nothing around it that would catch, and the only
  \<open>.catch\<close> of the function hangs on the promise of the bound function. Evaluated on a
  request that passes authentication and validation and whose custom validation function
  rejects, \<open>handler\<close> is itself rejected, with the reason of the custom validation
  function, after three calls; the bound function is not among them.
\<close>

theorem handler_customValidationFunc_rejects:
  "handler (staticsWith (Some authentication)) (controllerWith True (Some rejecting)) request
     = (Rejected ''custom validation broke'',
        [AuthenticationInvoked request,
         validationInvoked request (conditionWith True (Some rejecting)),
         CustomValidationInvoked (customValidationParameter request)])
   \<and> fst (handler (staticsWith (Some authentication)) (controllerWith True (Some rejecting)) request)
       \<noteq> Fulfilled internalServerErrorResponse"
  by (simp add: model_defs example_defs)

subsection \<open>Unauthorized requests\<close>

text \<open>
  Claim C2: when the binding has \<open>isAuthentication\<close> set and the authentication outcome has
  \<open>error401\<close> set, the dispatch returns the unauthorized response (401, \<open>Unauthorize\<close>),
  and the only injected function called is the authentication function: neither
  \<open>Validation.check\<close>, nor the custom validation function, nor the bound function.
\<close>

theorem handler_unauthorize:
  assumes "conditions controller (httpMethod event) = Some condition"
    and "isAuthentication condition"
    and "auth st event condition = (Fulfilled authResult, t)"
    and "error401 authResult"
  shows "handler st controller event
           = (Fulfilled unauthorizeErrorResponse, [AuthenticationInvoked event])
         \<and> statusCode unauthorizeErrorResponse = 401
         \<and> body unauthorizeErrorResponse = ''Unauthorize''"
  using assms auth_error401 [OF assms(3,4)]
  by (simp add: handler_def unauthorizeErrorResponse_def)

text \<open>The statement above at one of the example requests.\<close>

theorem handler_unauthorize_witness:
  "conditions (controllerWith True (Some overriding)) (httpMethod request)
     = Some (conditionWith True (Some overriding))
   \<and> isAuthentication (conditionWith True (Some overriding))
   \<and> auth (staticsWith (Some refusing)) request (conditionWith True (Some overriding))
       = (Fulfilled \<lparr>userInfo = None, error401 = True, error500 = False\<rparr>,
          [AuthenticationInvoked request])
   \<and> handler (staticsWith (Some refusing)) (controllerWith True (Some overriding)) request
       = (Fulfilled \<lparr>statusCode = 401, body = ''Unauthorize''\<rparr>, [AuthenticationInvoked request])"
proof -
  let ?c = "conditionWith True (Some overriding)"
  let ?a = "\<lparr>userInfo = None :: UserType option, error401 = True, error500 = False\<rparr>"
  have h1: "conditions (controllerWith True (Some overriding)) (httpMethod request) = Some ?c"
    by (simp add: controllerWith_def setMethod_def request_def)
  have h2: "isAuthentication ?c"
    by (simp add: conditionWith_def)
  have h3: "auth (staticsWith (Some refusing)) request ?c = (Fulfilled ?a, [AuthenticationInvoked request])"
    by (simp add: auth_def conditionWith_def staticsWith_def refusing_def)
  have h4: "error401 ?a"
    by simp
  show ?thesis
    using h1 h2 h3 handler_unauthorize [OF h1 h2 h3 h4]
    by (simp add: unauthorizeErrorResponse_def)
qed

subsection \<open>Methods without a binding\<close>

text \<open>
  For a method that is no property of \<open>conditions\<close>, neither its own nor inherited, the
  dispatch returns the bad-request response and calls nothing.
\<close>

lemma handler_condition_undefined:
  assumes "conditions controller (httpMethod event) = None"
    and "httpMethod event \<notin> set Object_prototype"
  shows "handler st controller event = (Fulfilled badRequestResponse, [])"
  using assms by (simp add: handler_def)

text \<open>
  For a method that \<open>conditions\<close> inherits and does not have itself, the dispatch begins
  by calling \<open>Validation.check\<close> with \<open>undefined\<close> for the validators, whatever that
  function then does.
\<close>

lemma handler_condition_inherited:
  assumes "conditions controller (httpMethod event) = None"
    and "httpMethod event \<in> set Object_prototype"
  shows "\<exists>t. snd (handler st controller event)
               = ValidationInvoked None (headers event) (pathParameters event) (body_E event)
                   (queryStringParameters event) # t"
  using assms
  by (simp add: handler_def handlerInherited_def Let_def
           split: settled.splits option.splits call.splits)

text \<open>
  Claim C3 says that for every request whose method has no registered binding the
  dispatch returns the bad-request response (400, \<open>Bad Request\<close>) and calls no gate and
  no bound function. \<open>handler\<close> tests \<open>condition === undefined\<close> after reading a plain
  object by a string of the request, so a method that names a property of
  \<open>Object.prototype\<close> passes the test although nothing is registered for it. Evaluated
  on a controller without any binding and a request of method \<open>constructor\<close>, \<open>handler\<close>
  calls \<open>Validation.check\<close> with no validators, and, the check passing, ends in the
  rejection raised by calling \<open>controller[undefined]\<close>; it does not return 400.
\<close>

theorem handler_inherited_condition:
  "conditions unbound (httpMethod constructorRequest) = None
   \<and> handler (staticsWith (Some authentication)) unbound constructorRequest
       = (Rejected ''TypeError'',
          [ValidationInvoked None [(''Accept'', ''text/plain'')] None None None])
   \<and> handler (staticsWith (Some authentication)) unbound constructorRequest
       \<noteq> (Fulfilled badRequestResponse, [])"
  by (simp add: model_defs example_defs)

subsection \<open>Bindings without authentication\<close>

text \<open>
  Claim C4: when the binding has \<open>isAuthentication\<close> unset, \<open>auth\<close> is fulfilled with no
  error flag and no \<open>userInfo\<close> without calling anything, the authentication function is
  not called anywhere in the dispatch, whether one is configured or not, and every call of
  the bound function gets a merged event whose \<open>userInfo\<close> is undefined.
\<close>

theorem handler_without_authentication:
  fixes st :: "(string, 'e, 'v) statics"
  assumes "conditions controller (httpMethod event) = Some condition"
    and "\<not> isAuthentication condition"
  shows "auth st event condition
           = (Fulfilled \<lparr>userInfo = None, error401 = False, error500 = False\<rparr>, [])
         \<and> filter isAuthenticationInvoked (snd (handler st controller event)) = []
         \<and> (\<forall>k p. CallFunctionInvoked k p \<in> set (snd (handler st controller event))
               \<longrightarrow> userInfo_C p = None)"
proof -
  let ?a = "\<lparr>userInfo = None :: 'e option, error401 = False, error500 = False\<rparr>"
  let ?c = "callFunction controller event condition ?a"
  have a: "auth st event condition = (Fulfilled ?a, [])"
    using assms(2) by (simp add: auth_def)
  have c1: "filter isAuthenticationInvoked (snd ?c) = []"
    by (simp add: callFunction_def Let_def split: option.splits call.splits settled.splits)
  have c2: "userInfo_C p = None" if "CallFunctionInvoked k p \<in> set (snd ?c)" for k p
    using callFunction_userInfo [OF that] by simp
  have t: "filter isAuthenticationInvoked (snd (handler st controller event)) = []"
    using assms(1) a c1
    by (auto simp: handler_def Let_def validationInvoked_def
             split: settled.splits option.splits prod.splits)
  have u: "userInfo_C p = None"
    if "CallFunctionInvoked k p \<in> set (snd (handler st controller event))" for k p
    using that assms(1) a c2 [of k p]
    by (auto simp: handler_def Let_def validationInvoked_def
             split: settled.splits option.splits prod.splits if_splits)
  show ?thesis
    using a t u by blast
qed

text \<open>The statement above at one of the example requests.\<close>

theorem handler_without_authentication_witness:
  "conditions (controllerWith False None) (httpMethod request) = Some (conditionWith False None)
   \<and> \<not> isAuthentication (conditionWith False None)
   \<and> handler (staticsWith (Some authentication)) (controllerWith False None) request
       = (Fulfilled ok,
          [validationInvoked request (conditionWith False None),
           CallFunctionInvoked ''get''
             \<lparr>headers_C = [(''Accept'', ''text/plain'')], pathParameters_C = None,
              body_C = None, queryParameters_C = None, userInfo_C = None\<rparr>])
   \<and> filter isAuthenticationInvoked
         (snd (handler (staticsWith (Some authentication)) (controllerWith False None) request))
       = []"
proof -
  let ?c = "conditionWith False None"
  have h1: "conditions (controllerWith False None) (httpMethod request) = Some ?c"
    by (simp add: controllerWith_def setMethod_def request_def)
  have h2: "\<not> isAuthentication ?c"
    by (simp add: conditionWith_def)
  have r: "handler (staticsWith (Some authentication)) (controllerWith False None) request
       = (Fulfilled ok,
          [validationInvoked request (conditionWith False None),
           CallFunctionInvoked ''get''
             \<lparr>headers_C = [(''Accept'', ''text/plain'')], pathParameters_C = None,
              body_C = None, queryParameters_C = None, userInfo_C = None\<rparr>])"
    by (simp add: model_defs example_defs)
  show ?thesis
    using h1 h2 r
      handler_without_authentication [OF h1 h2, of "staticsWith (Some authentication)"]
    by simp
qed

subsection \<open>Authentication required, none configured\<close>

text \<open>
  Claim C5: when the binding has \<open>isAuthentication\<close> set and the static
  \<open>authenticationFunc\<close> is undefined, the dispatch returns the internal-error response
  (500, \<open>Internal Server Error\<close>), which is not the unauthorized response, and calls
  nothing, so the answer is never the one of the bound function.
\<close>

theorem handler_authenticationFunc_undefined:
  assumes "conditions controller (httpMethod event) = Some condition"
    and "isAuthentication condition"
    and "authenticationFunc st = None"
  shows "handler st controller event = (Fulfilled internalServerErrorResponse, [])
         \<and> internalServerErrorResponse \<noteq> unauthorizeErrorResponse
         \<and> statusCode internalServerErrorResponse = 500
         \<and> body internalServerErrorResponse = ''Internal Server Error''"
  using assms
  by (simp add: handler_def auth_def internalServerErrorResponse_def unauthorizeErrorResponse_def)

text \<open>The statement above at one of the example requests.\<close>

theorem handler_authenticationFunc_undefined_witness:
  "conditions (controllerWith True None) (httpMethod request) = Some (conditionWith True None)
   \<and> isAuthentication (conditionWith True None)
   \<and> authenticationFunc (staticsWith None) = None
   \<and> handler (staticsWith None) (controllerWith True None) request
       = (Fulfilled \<lparr>statusCode = 500, body = ''Internal Server Error''\<rparr>, [])"
proof -
  let ?c = "conditionWith True None"
  have h1: "conditions (controllerWith True None) (httpMethod request) = Some ?c"
    by (simp add: controllerWith_def setMethod_def request_def)
  have h2: "isAuthentication ?c"
    by (simp add: conditionWith_def)
  have h3: "authenticationFunc (staticsWith None) = None"
    by (simp add: staticsWith_def)
  show ?thesis
    using h1 h2 h3 handler_authenticationFunc_undefined [OF h1 h2 h3]
    by (simp add: internalServerErrorResponse_def)
qed

subsection \<open>The error response of a custom validation\<close>

text \<open>
  Claim C6: when a dispatch reaches its bound custom validation function (the binding is
  found, authentication raises no error flag, \<open>Validation.check\<close> is fulfilled with true)
  and the result of that function has an \<open>errorResponse\<close>, the dispatch returns this
  response as it is, whatever its status code and whatever \<open>validationResult\<close> says; the
  bound function is not called.
\<close>

theorem handler_errorResponse:
  assumes "conditions controller (httpMethod event) = Some condition"
    and "auth st event condition = (Fulfilled authResult, t1)"
    and "\<not> error401 authResult" and "\<not> error500 authResult"
    and "await (validationCheck st event condition) = Fulfilled True"
    and "customValidationFunc condition = Some cv"
    and "await (cv (customValidationParameter event)) = Fulfilled r"
    and "errorResponse r = Some response"
  shows "handler st controller event =
           (Fulfilled response,
            t1 @ [validationInvoked event condition,
                  CustomValidationInvoked (customValidationParameter event)])"
  using assms by (simp add: handler_def Let_def)

text \<open>The statement above at one of the example requests.\<close>

theorem handler_errorResponse_witness:
  "conditions (controllerWith True (Some overriding)) (httpMethod request)
     = Some (conditionWith True (Some overriding))
   \<and> await (validationCheck (staticsWith (Some authentication)) request
               (conditionWith True (Some overriding))) = Fulfilled True
   \<and> customValidationFunc (conditionWith True (Some overriding)) = Some overriding
   \<and> await (overriding (customValidationParameter request))
       = Fulfilled \<lparr>validationResult = True, errorResponse = Some teapot\<rparr>
   \<and> handler (staticsWith (Some authentication)) (controllerWith True (Some overriding)) request
       = (Fulfilled \<lparr>statusCode = 418, body = ''teapot''\<rparr>,
          [AuthenticationInvoked request,
           validationInvoked request (conditionWith True (Some overriding)),
           CustomValidationInvoked (customValidationParameter request)])"
proof -
  let ?c = "conditionWith True (Some overriding)"
  let ?st = "staticsWith (Some authentication)"
  let ?a = "\<lparr>userInfo = Some \<lparr>userId = ''6e1dca92-70f5-4531-8dc2-cc20dbca363b'',
                                role = ''admin''\<rparr>,
              error401 = False, error500 = False\<rparr>"
  let ?r = "\<lparr>validationResult = True, errorResponse = Some teapot\<rparr>"
  have h1: "conditions (controllerWith True (Some overriding)) (httpMethod request) = Some ?c"
    by (rule example_conditions)
  have h2: "auth ?st request ?c = (Fulfilled ?a, [AuthenticationInvoked request])"
    by (rule example_auth)
  have h3: "\<not> error401 ?a" and h4: "\<not> error500 ?a"
    by simp_all
  have h5: "await (validationCheck ?st request ?c) = Fulfilled True"
    by (rule example_validationCheck)
  have h6: "customValidationFunc ?c = Some overriding"
    by (simp add: conditionWith_def)
  have h7: "await (overriding (customValidationParameter request)) = Fulfilled ?r"
    by (simp add: overriding_def)
  have h8: "errorResponse ?r = Some teapot"
    by simp
  show ?thesis
    using h1 h5 h6 h7 handler_errorResponse [OF h1 h2 h3 h4 h5 h6 h7 h8]
    by (simp add: teapot_def)
qed

subsection \<open>A failed custom validation\<close>

text \<open>
  Claim C7: when a dispatch reaches its bound custom validation function and the result
  has no \<open>errorResponse\<close> and \<open>validationResult\<close> false, the dispatch returns the
  bad-request response (400, \<open>Bad Request\<close>) and the bound function is not called.
\<close>

theorem handler_custom_failed:
  assumes "conditions controller (httpMethod event) = Some condition"
    and "auth st event condition = (Fulfilled authResult, t1)"
    and "\<not> error401 authResult" and "\<not> error500 authResult"
    and "await (validationCheck st event condition) = Fulfilled True"
    and "customValidationFunc condition = Some cv"
    and "await (cv (customValidationParameter event)) = Fulfilled r"
    and "errorResponse r = None" and "\<not> validationResult r"
  shows "handler st controller event =
           (Fulfilled badRequestResponse,
            t1 @ [validationInvoked event condition,
                  CustomValidationInvoked (customValidationParameter event)])
         \<and> filter isCallFunctionInvoked (snd (handler st controller event)) = []
         \<and> statusCode badRequestResponse = 400 \<and> body badRequestResponse = ''Bad Request''"
proof -
  have res: "handler st controller event =
           (Fulfilled badRequestResponse,
            t1 @ [validationInvoked event condition,
                  CustomValidationInvoked (customValidationParameter event)])"
    using assms by (simp add: handler_def Let_def)
  have "filter isCallFunctionInvoked t1 = []"
    using assms(2) by (rule auth_no_CallFunctionInvoked)
  with res show ?thesis
    by (simp add: validationInvoked_def badRequestResponse_def)
qed

text \<open>The statement above at one of the example requests.\<close>

theorem handler_custom_failed_witness:
  "conditions (controllerWith True (Some failing)) (httpMethod request)
     = Some (conditionWith True (Some failing))
   \<and> await (validationCheck (staticsWith (Some authentication)) request
               (conditionWith True (Some failing))) = Fulfilled True
   \<and> customValidationFunc (conditionWith True (Some failing)) = Some failing
   \<and> await (failing (customValidationParameter request))
       = Fulfilled \<lparr>validationResult = False, errorResponse = None\<rparr>
   \<and> handler (staticsWith (Some authentication)) (controllerWith True (Some failing)) request
       = (Fulfilled \<lparr>statusCode = 400, body = ''Bad Request''\<rparr>,
          [AuthenticationInvoked request,
           validationInvoked request (conditionWith True (Some failing)),
           CustomValidationInvoked (customValidationParameter request)])"
proof -
  let ?c = "conditionWith True (Some failing)"
  let ?st = "staticsWith (Some authentication)"
  let ?a = "\<lparr>userInfo = Some \<lparr>userId = ''6e1dca92-70f5-4531-8dc2-cc20dbca363b'',
                                role = ''admin''\<rparr>,
              error401 = False, error500 = False\<rparr>"
  let ?r = "\<lparr>validationResult = False, errorResponse = None\<rparr>"
  have h1: "conditions (controllerWith True (Some failing)) (httpMethod request) = Some ?c"
    by (rule example_conditions)
  have h2: "auth ?st request ?c = (Fulfilled ?a, [AuthenticationInvoked request])"
    by (rule example_auth)
  have h3: "\<not> error401 ?a" and h4: "\<not> error500 ?a"
    by simp_all
  have h5: "await (validationCheck ?st request ?c) = Fulfilled True"
    by (rule example_validationCheck)
  have h6: "customValidationFunc ?c = Some failing"
    by (simp add: conditionWith_def)
  have h7: "await (failing (customValidationParameter request)) = Fulfilled ?r"
    by (simp add: failing_def)
  have h8: "errorResponse ?r = None" and h9: "\<not> validationResult ?r"
    by simp_all
  show ?thesis
    using h1 h5 h6 h7 handler_custom_failed [OF h1 h2 h3 h4 h5 h6 h7 h8 h9]
    by (simp add: badRequestResponse_def)
qed

subsection \<open>Calling the bound function\<close>

text \<open>
  Claim C8: when a dispatch passes every gate (the binding is found, authentication raises
  no error flag, \<open>Validation.check\<close> is fulfilled with true, and the custom validation
  function is absent or fulfilled with \<open>validationResult\<close> true and no \<open>errorResponse\<close>),
  the bound function is called exactly once, with the merged event made of the headers,
  path parameters, body and query parameters of the request and the \<open>userInfo\<close> of the
  authentication outcome. If its promise is rejected the dispatch returns the
  internal-error response (500, \<open>Internal Server Error\<close>); if it is fulfilled the dispatch
  returns the response it is fulfilled with.
\<close>

theorem handler_callFunction:
  assumes "conditions controller (httpMethod event) = Some condition"
    and "auth st event condition = (Fulfilled authResult, t1)"
    and "\<not> error401 authResult" and "\<not> error500 authResult"
    and "await (validationCheck st event condition) = Fulfilled True"
    and "customValidationFunc condition = None
         \<or> (\<exists>cv r. customValidationFunc condition = Some cv
               \<and> await (cv (customValidationParameter event)) = Fulfilled r
               \<and> errorResponse r = None \<and> validationResult r)"
    and "members controller (func condition) = Some f"
  shows "filter isCallFunctionInvoked (snd (handler st controller event))
           = [CallFunctionInvoked (func condition) (callFunctionParameter event authResult)]
         \<and> callFunctionParameter event authResult
             = \<lparr>headers_C = headers event, pathParameters_C = pathParameters event,
                body_C = body_E event, queryParameters_C = queryStringParameters event,
                userInfo_C = userInfo authResult\<rparr>
         \<and> (\<forall>x. f (callFunctionParameter event authResult) = Returns (Rejected x)
               \<longrightarrow> fst (handler st controller event) = Fulfilled internalServerErrorResponse)
         \<and> (\<forall>response. f (callFunctionParameter event authResult) = Returns (Fulfilled response)
               \<longrightarrow> fst (handler st controller event) = Fulfilled response)
         \<and> statusCode internalServerErrorResponse = 500
         \<and> body internalServerErrorResponse = ''Internal Server Error''"
proof -
  let ?c = "callFunction controller event condition authResult"
  have t1: "filter isCallFunctionInvoked t1 = []"
    using assms(2) by (rule auth_no_CallFunctionInvoked)
  have c: "snd ?c = [CallFunctionInvoked (func condition) (callFunctionParameter event authResult)]"
    using assms(7) by (rule callFunction_member)
  from assms(6) obtain t where h: "handler st controller event = (fst ?c, t1 @ t @ snd ?c)"
    and t: "filter isCallFunctionInvoked t = []"
  proof
    assume n: "customValidationFunc condition = None"
    show thesis
      using that [of "[validationInvoked event condition]"]
        handler_after_gates [OF assms(1-5) n]
      by (simp add: validationInvoked_def)
  next
    assume "\<exists>cv r. customValidationFunc condition = Some cv
               \<and> await (cv (customValidationParameter event)) = Fulfilled r
               \<and> errorResponse r = None \<and> validationResult r"
    then obtain cv r where s: "customValidationFunc condition = Some cv"
      and a: "await (cv (customValidationParameter event)) = Fulfilled r"
      and e: "errorResponse r = None" and v: "validationResult r"
      by blast
    show thesis
      using that [of "[validationInvoked event condition,
                       CustomValidationInvoked (customValidationParameter event)]"]
        handler_after_custom [OF assms(1-5) s a e v]
      by (simp add: validationInvoked_def)
  qed
  have invoked: "filter isCallFunctionInvoked (snd (handler st controller event))
           = [CallFunctionInvoked (func condition) (callFunctionParameter event authResult)]"
    using h t t1 c by simp
  have rejected: "fst ?c = Fulfilled internalServerErrorResponse"
    if "f (callFunctionParameter event authResult) = Returns (Rejected x)" for x
    using that assms(7) by (simp add: callFunction_def Let_def)
  have fulfilled: "fst ?c = Fulfilled response"
    if "f (callFunctionParameter event authResult) = Returns (Fulfilled response)" for response
    using that assms(7) by (simp add: callFunction_def Let_def)
  show ?thesis
    using invoked rejected fulfilled h
    by (simp add: callFunctionParameter_def internalServerErrorResponse_def)
qed

text \<open>The statement above at one of the example requests.\<close>

theorem handler_callFunction_witness:
  "conditions (controllerWith True None) (httpMethod request) = Some (conditionWith True None)
   \<and> await (validationCheck (staticsWith (Some authentication)) request
               (conditionWith True None)) = Fulfilled True
   \<and> customValidationFunc (conditionWith True None) = None
   \<and> members (controllerWith True None) (func (conditionWith True None)) = Some get
   \<and> filter isCallFunctionInvoked
         (snd (handler (staticsWith (Some authentication)) (controllerWith True None) request))
       = [CallFunctionInvoked ''get''
            \<lparr>headers_C = [(''Accept'', ''text/plain'')], pathParameters_C = None,
             body_C = None, queryParameters_C = None,
             userInfo_C = Some \<lparr>userId = ''6e1dca92-70f5-4531-8dc2-cc20dbca363b'',
                                 role = ''admin''\<rparr>\<rparr>]
   \<and> fst (handler (staticsWith (Some authentication)) (controllerWith True None) request)
       = Fulfilled \<lparr>statusCode = 200, body = ''ok''\<rparr>"
proof -
  let ?c = "conditionWith True None"
  let ?st = "staticsWith (Some authentication)"
  let ?a = "\<lparr>userInfo = Some \<lparr>userId = ''6e1dca92-70f5-4531-8dc2-cc20dbca363b'',
                                role = ''admin''\<rparr>,
              error401 = False, error500 = False\<rparr>"
  have h1: "conditions (controllerWith True None) (httpMethod request) = Some ?c"
    by (rule example_conditions)
  have h2: "auth ?st request ?c = (Fulfilled ?a, [AuthenticationInvoked request])"
    by (rule example_auth)
  have h3: "\<not> error401 ?a" and h4: "\<not> error500 ?a"
    by simp_all
  have h5: "await (validationCheck ?st request ?c) = Fulfilled True"
    by (rule example_validationCheck)
  have n: "customValidationFunc ?c = None"
    by (simp add: conditionWith_def)
  then have h6: "customValidationFunc ?c = None
         \<or> (\<exists>cv r. customValidationFunc ?c = Some cv
               \<and> await (cv (customValidationParameter request)) = Fulfilled r
               \<and> errorResponse r = None \<and> validationResult r)"
    by (rule disjI1)
  have h7: "members (controllerWith True None) (func ?c) = Some get"
    by (simp add: controllerWith_def setMethod_def unbound_def conditionWith_def)
  have g: "get (callFunctionParameter request ?a) = Returns (Fulfilled ok)"
    by (simp add: get_def)
  show ?thesis
    using h1 h5 n h7 g handler_callFunction [OF h1 h2 h3 h4 h5 h6 h7]
    by (simp add: ok_def request_def conditionWith_def)
qed

subsection \<open>Registering a binding\<close>

text \<open>
  Claim C9: after \<open>setMethod(method, condition)\<close> the lookup of \<open>method\<close> yields
  \<open>condition\<close>, whatever was registered for it before, the bindings of every other method
  are as they were, and so are the members of the controller.
\<close>

theorem setMethod_conditions:
  "conditions (setMethod this method condition) method = Some condition
   \<and> (\<forall>other. other \<noteq> method \<longrightarrow>
         conditions (setMethod this method condition) other = conditions this other)
   \<and> members (setMethod this method condition) = members this"
  by (simp add: setMethod_def)

text \<open>The statement above at one of the example requests.\<close>

theorem setMethod_conditions_witness:
  "conditions (controllerWith True None) ''GET'' = Some (conditionWith True None)
   \<and> ''POST'' \<noteq> ''GET''
   \<and> conditions (setMethod (setMethod (controllerWith True None) ''POST'' (conditionWith True None))
         ''GET'' (conditionWith False (Some failing))) ''GET''
       = Some (conditionWith False (Some failing))
   \<and> conditions (setMethod (setMethod (controllerWith True None) ''POST'' (conditionWith True None))
         ''GET'' (conditionWith False (Some failing))) ''POST''
       = Some (conditionWith True None)"
proof -
  let ?ctrl = "setMethod (controllerWith True None) ''POST'' (conditionWith True None)"
  have h: "''POST'' \<noteq> ''GET''"
    by simp
  have before: "conditions (controllerWith True None) ''GET'' = Some (conditionWith True None)"
    by (simp add: controllerWith_def setMethod_def)
  have post: "conditions ?ctrl ''POST'' = Some (conditionWith True None)"
    by (simp add: setMethod_def)
  show ?thesis
    using h before post
      setMethod_conditions [of ?ctrl "''GET''" "conditionWith False (Some failing)"]
    by simp
qed

subsection \<open>Both error flags\<close>

text \<open>
  Claim C10: when the authentication function is fulfilled with an outcome that has both
  \<open>error401\<close> and \<open>error500\<close> set, the dispatch returns the unauthorized response, not the
  internal-error response: \<open>error401\<close> is tested first.
\<close>

theorem handler_error401_before_error500:
  assumes "conditions controller (httpMethod event) = Some condition"
    and "isAuthentication condition"
    and "authenticationFunc st = Some f"
    and "f event = Returns (Fulfilled authResult)"
    and "error401 authResult" and "error500 authResult"
  shows "handler st controller event
           = (Fulfilled unauthorizeErrorResponse, [AuthenticationInvoked event])
         \<and> unauthorizeErrorResponse \<noteq> internalServerErrorResponse"
  using assms
  by (simp add: handler_def auth_def internalServerErrorResponse_def unauthorizeErrorResponse_def)

text \<open>The statement above at one of the example requests.\<close>

theorem handler_error401_before_error500_witness:
  "conditions (controllerWith True None) (httpMethod request) = Some (conditionWith True None)
   \<and> isAuthentication (conditionWith True None)
   \<and> authenticationFunc (staticsWith (Some refusingTwice)) = Some refusingTwice
   \<and> refusingTwice request
       = Returns (Fulfilled \<lparr>userInfo = None, error401 = True, error500 = True\<rparr>)
   \<and> handler (staticsWith (Some refusingTwice)) (controllerWith True None) request
       = (Fulfilled \<lparr>statusCode = 401, body = ''Unauthorize''\<rparr>, [AuthenticationInvoked request])"
proof -
  let ?c = "conditionWith True None"
  let ?a = "\<lparr>userInfo = None :: UserType option, error401 = True, error500 = True\<rparr>"
  have h1: "conditions (controllerWith True None) (httpMethod request) = Some ?c"
    by (simp add: controllerWith_def setMethod_def request_def)
  have h2: "isAuthentication ?c"
    by (simp add: conditionWith_def)
  have h3: "authenticationFunc (staticsWith (Some refusingTwice)) = Some refusingTwice"
    by (simp add: staticsWith_def)
  have h4: "refusingTwice request = Returns (Fulfilled ?a)"
    by (simp add: refusingTwice_def)
  have h5: "error401 ?a" and h6: "error500 ?a"
    by simp_all
  show ?thesis
    using h1 h2 h3 h4 handler_error401_before_error500 [OF h1 h2 h3 h4 h5 h6]
    by (simp add: unauthorizeErrorResponse_def)
qed

end
